theory Spec2Isabelle
  imports Complex_Main
begin

section \<open>Data model of \<^verbatim>\<open>flusherr.py\<close>\<close>

text \<open>
  The dataclass \<^verbatim>\<open>MarketState\<close>. Python's floats are idealised as the reals: rounding,
  infinities and NaN are outside this development. The seven numeric fields keep their
  names; the \<^verbatim>\<open>structure\<close> literal is carried as a string under the name
  \<open>structure_tag\<close> and is read by no method.
\<close>

record MarketState =
  price :: real
  funding_rate :: real
  funding_countdown_hours :: real
  volume_24h :: real
  rsi_1h :: real
  support_level :: real
  resistance_level :: real
  structure_tag :: string

text \<open>
  Python dictionaries are mutable objects that are passed and returned by reference. A
  dictionary is therefore a cell of a store: \<open>ref\<close> is the address of a dictionary and a
  \<open>heap\<close> gives the content of every dictionary. \<open>setitem hp d k v\<close> is the store after
  \<^verbatim>\<open>d[k] = v\<close>.
\<close>

type_synonym ref = nat

type_synonym heap = "ref \<Rightarrow> (string \<rightharpoonup> real)"

definition setitem :: "heap \<Rightarrow> ref \<Rightarrow> string \<Rightarrow> real \<Rightarrow> heap" where
  "setitem hp d k v = hp(d := (hp d)(k \<mapsto> v))"

text \<open>
  The attributes of a \<^verbatim>\<open>BTCFlushPredictor\<close> object: the number
  \<^verbatim>\<open>self.flush_probability\<close> and \<^verbatim>\<open>self.features\<close>, the reference to the object's
  dictionary. A method takes the object and the store and returns the store, and the
  object where it assigns an attribute, updated.
\<close>

record BTCFlushPredictor =
  self_flush_probability :: real
  self_features :: ref

text \<open>
  The constructor \<^verbatim>\<open>__init__\<close>: \<open>d\<close> is the address of the new, empty dictionary that
  \<^verbatim>\<open>{}\<close> creates.
\<close>

definition init :: "ref \<Rightarrow> heap \<Rightarrow> BTCFlushPredictor \<times> heap" where
  "init d hp = (\<lparr>self_flush_probability = 0.0, self_features = d\<rparr>, hp(d := Map.empty))"

text \<open>The only exception the arithmetic of the module can raise.\<close>

datatype error = ZeroDivisionError

text \<open>
  The dictionary returned by \<^verbatim>\<open>predict\<close>, one field per key. Its \<^verbatim>\<open>'features'\<close> entry
  is a reference: the source stores \<^verbatim>\<open>self.features\<close> itself there, not a copy.
\<close>

record prediction =
  flush_probability :: real
  target_price :: real
  regime :: string
  signal :: string
  features :: ref
  confidence :: string

section \<open>The scorers\<close>

text \<open>
  \<^verbatim>\<open>calculate_funding_pressure\<close>: the division by \<^verbatim>\<open>state.resistance_level\<close> raises
  when that level is zero, before the dictionary is written. Otherwise the score is stored
  under \<^verbatim>\<open>'funding_pressure'\<close> in the object's dictionary and returned.
\<close>

definition calculate_funding_pressure ::
  "BTCFlushPredictor \<Rightarrow> MarketState \<Rightarrow> heap \<Rightarrow> (error + real) \<times> heap" where
  "calculate_funding_pressure self state hp =
     (let funding_z = min (\<bar>funding_rate state\<bar> / 0.0008) 1.0;
          time_pressure = 1 - (funding_countdown_hours state / 8);
          time_pressure = max 0.3 (min time_pressure 0.95)
      in if resistance_level state = 0 then (Inl ZeroDivisionError, hp)
         else
           let price_vs_resistance =
                 (resistance_level state - price state) / resistance_level state;
               funding_penalty =
                 (if funding_rate state > 0 \<and> price_vs_resistance > 0.01 then 1.5 else 1.0);
               score = funding_z * time_pressure * funding_penalty
           in (Inr score, setitem hp (self_features self) ''funding_pressure'' score))"

text \<open>
  \<^verbatim>\<open>structural_breakdown_score\<close>: the division by \<^verbatim>\<open>state.support_level\<close> is reached
  only in the \<^verbatim>\<open>else\<close> branch, so it raises when the support level is zero and the price is
  not below it.
\<close>

definition structural_breakdown_score ::
  "BTCFlushPredictor \<Rightarrow> MarketState \<Rightarrow> heap \<Rightarrow> (error + real) \<times> heap" where
  "structural_breakdown_score self state hp =
     (if \<not> price state < support_level state \<and> support_level state = 0
      then (Inl ZeroDivisionError, hp)
      else
        let breakdown_severity =
              (if price state < support_level state then 1.0
               else
                 let distance_to_support =
                       (price state - support_level state) / support_level state
                 in max 0 (1 - (distance_to_support * 10)));
            volume_score = min (volume_24h state / 5000000000) 1.0;
            rsi_score = (if rsi_1h state < 50 then (50 - rsi_1h state) / 50 else 0);
            score = breakdown_severity * 0.5 + volume_score * 0.3 + rsi_score * 0.2
        in (Inr score, setitem hp (self_features self) ''structure_score'' score))"

text \<open>
  \<^verbatim>\<open>time_regime_classifier\<close> reads \<^verbatim>\<open>datetime.utcnow().hour\<close>; the hour read from the clock
  is the parameter \<open>hour_utc\<close>. The method reads and writes neither the object nor the
  store.
\<close>

definition time_regime_classifier :: "BTCFlushPredictor \<Rightarrow> MarketState \<Rightarrow> int \<Rightarrow> string" where
  "time_regime_classifier self state hour_utc =
     (if 8 \<le> hour_utc \<and> hour_utc < 16 then
        (if funding_countdown_hours state < 1 then ''funding_liquidation_window''
         else ''consolidation_bleed'')
      else if 0 \<le> hour_utc \<and> hour_utc < 8 then ''asia_deleveraging''
      else if 19 \<le> hour_utc \<and> hour_utc \<le> 21 then ''us_momentum''
      else ''standard'')"

section \<open>The decision engine\<close>

text \<open>
  \<^verbatim>\<open>predict\<close>: an exception of a scorer leaves the method at once, with the store as the
  scorers before it left it. The \<^verbatim>\<open>'features'\<close> entry of the returned dictionary is
  \<^verbatim>\<open>self.features\<close>, the reference to the object's own dictionary: what a caller reads
  through it is the content of that dictionary in the store at the time of reading.
\<close>

definition predict ::
  "BTCFlushPredictor \<Rightarrow> MarketState \<Rightarrow> int \<Rightarrow> heap \<Rightarrow>
     (error + prediction) \<times> BTCFlushPredictor \<times> heap" where
  "predict self state hour_utc hp =
     (case calculate_funding_pressure self state hp of
        (Inl e, hp1) \<Rightarrow> (Inl e, self, hp1)
      | (Inr funding_pain, hp1) \<Rightarrow>
     (case structural_breakdown_score self state hp1 of
        (Inl e, hp2) \<Rightarrow> (Inl e, self, hp2)
      | (Inr structural_damage, hp2) \<Rightarrow>
     (let rgm = time_regime_classifier self state hour_utc;
          (fp, target) =
            (if rgm = ''funding_liquidation_window'' \<and> funding_pain > 0.6 then
               (min (funding_pain * structural_damage * 1.2) 0.85, support_level state * 0.995)
             else if structural_damage > 0.7 \<and> funding_rate state > 0 then
               (structural_damage * 0.8, support_level state)
             else if rgm = ''consolidation_bleed'' \<and> rsi_1h state < 40 then
               (0.5, support_level state)
             else (0.2, resistance_level state));
          self3 = self\<lparr>self_flush_probability := fp\<rparr>
      in (Inr \<lparr>flush_probability = fp,
               target_price = target,
               regime = rgm,
               signal = (if fp > 0.65 then ''SHORT_FLUSH'' else ''NEUTRAL/CONSOLIDATION''),
               features = self_features self3,
               confidence = (if fp > 0.7 then ''HIGH''
                             else if fp > 0.5 then ''MEDIUM'' else ''LOW'')\<rparr>,
          self3, hp2))))"

text \<open>
  The entry point: the snapshot \<^verbatim>\<open>current_state\<close> and the object
  \<^verbatim>\<open>model = BTCFlushPredictor()\<close>, whose dictionary is put at address 0 of a store with
  no other content.
\<close>

definition current_state :: MarketState where
  "current_state =
     \<lparr>price = 82845, funding_rate = 0.00060, funding_countdown_hours = 2.95,
      volume_24h = 3710000000, rsi_1h = 37.5, support_level = 81118,
      resistance_level = 83400, structure_tag = ''consolidation''\<rparr>"

definition model :: BTCFlushPredictor where
  "model = fst (init 0 (\<lambda>d. Map.empty))"

definition model_heap :: heap where
  "model_heap = snd (init 0 (\<lambda>d. Map.empty))"

section \<open>The local variables of the methods, as functions of the snapshot\<close>

text \<open>
  The intermediate values of \<^verbatim>\<open>calculate_funding_pressure\<close>, under the names of its local
  variables, for use in the statements below. \<open>price_vs_resistance\<close> is the quotient
  itself: the method computes it only when the resistance level is not zero.
\<close>

definition funding_z :: "MarketState \<Rightarrow> real" where
  "funding_z state = min (\<bar>funding_rate state\<bar> / 0.0008) 1.0"

definition time_pressure :: "MarketState \<Rightarrow> real" where
  "time_pressure state = max 0.3 (min (1 - (funding_countdown_hours state / 8)) 0.95)"

definition price_vs_resistance :: "MarketState \<Rightarrow> real" where
  "price_vs_resistance state =
     (resistance_level state - price state) / resistance_level state"

definition funding_penalty :: "MarketState \<Rightarrow> real" where
  "funding_penalty state =
     (if funding_rate state > 0 \<and> price_vs_resistance state > 0.01 then 1.5 else 1.0)"

definition funding_pressure :: "MarketState \<Rightarrow> real" where
  "funding_pressure state = funding_z state * time_pressure state * funding_penalty state"

text \<open>The intermediate values of \<^verbatim>\<open>structural_breakdown_score\<close>.\<close>

definition breakdown_severity :: "MarketState \<Rightarrow> real" where
  "breakdown_severity state =
     (if price state < support_level state then 1.0
      else max 0 (1 - ((price state - support_level state) / support_level state * 10)))"

definition volume_score :: "MarketState \<Rightarrow> real" where
  "volume_score state = min (volume_24h state / 5000000000) 1.0"

definition rsi_score :: "MarketState \<Rightarrow> real" where
  "rsi_score state = (if rsi_1h state < 50 then (50 - rsi_1h state) / 50 else 0)"

definition structure_score :: "MarketState \<Rightarrow> real" where
  "structure_score state =
     breakdown_severity state * 0.5 + volume_score state * 0.3 + rsi_score state * 0.2"

text \<open>
  The \<^verbatim>\<open>if\<close>/\<^verbatim>\<open>elif\<close> chain of \<^verbatim>\<open>predict\<close>, as a function of the regime, the two scores
  and the snapshot: the pair of \<^verbatim>\<open>self.flush_probability\<close> and \<^verbatim>\<open>target\<close>.
\<close>

definition flush_model :: "string \<Rightarrow> real \<Rightarrow> real \<Rightarrow> MarketState \<Rightarrow> real \<times> real" where
  "flush_model rgm funding_pain structural_damage state =
     (if rgm = ''funding_liquidation_window'' \<and> funding_pain > 0.6 then
        (min (funding_pain * structural_damage * 1.2) 0.85, support_level state * 0.995)
      else if structural_damage > 0.7 \<and> funding_rate state > 0 then
        (structural_damage * 0.8, support_level state)
      else if rgm = ''consolidation_bleed'' \<and> rsi_1h state < 40 then
        (0.5, support_level state)
      else (0.2, resistance_level state))"

text \<open>
  The dictionary \<^verbatim>\<open>predict\<close> builds from a probability, a target, a regime and the
  reference to the features.
\<close>

definition result_of :: "real \<Rightarrow> real \<Rightarrow> string \<Rightarrow> ref \<Rightarrow> prediction" where
  "result_of fp target rgm fs =
     \<lparr>flush_probability = fp, target_price = target, regime = rgm,
      signal = (if fp > 0.65 then ''SHORT_FLUSH'' else ''NEUTRAL/CONSOLIDATION''),
      features = fs,
      confidence = (if fp > 0.7 then ''HIGH'' else if fp > 0.5 then ''MEDIUM'' else ''LOW'')\<rparr>"

text \<open>The store after both scorers have written the scores of a snapshot to dictionary \<open>d\<close>.\<close>

definition with_scores :: "MarketState \<Rightarrow> ref \<Rightarrow> heap \<Rightarrow> heap" where
  "with_scores state d hp =
     setitem (setitem hp d ''funding_pressure'' (funding_pressure state))
       d ''structure_score'' (structure_score state)"

text \<open>
  Concrete snapshots used below: one inside the liquidation window with a broken support,
  the same one with a negative traded volume, and the entry point's snapshot with a level
  set to zero or the price below a zero support.
\<close>

definition liquidation_state :: MarketState where
  "liquidation_state =
     \<lparr>price = 80000, funding_rate = 0.0008, funding_countdown_hours = 0.5,
      volume_24h = 5000000000, rsi_1h = 30, support_level = 81118,
      resistance_level = 83400, structure_tag = ''breakdown''\<rparr>"

definition negative_volume_state :: MarketState where
  "negative_volume_state =
     \<lparr>price = 80000, funding_rate = 0.0008, funding_countdown_hours = 0.5,
      volume_24h = - 50000000000, rsi_1h = 50, support_level = 81118,
      resistance_level = 83400, structure_tag = ''breakdown''\<rparr>"

definition zero_resistance_state :: MarketState where
  "zero_resistance_state = current_state\<lparr>resistance_level := 0\<rparr>"

definition zero_support_state :: MarketState where
  "zero_support_state = current_state\<lparr>support_level := 0\<rparr>"

definition negative_price_state :: MarketState where
  "negative_price_state = current_state\<lparr>price := - 1, support_level := 0\<rparr>"

text \<open>
  Two calls in a row on the entry point's object: the entry point's own call, then a call
  with another snapshot on the same object, in the store the first call left.
\<close>

definition first_call :: "(error + prediction) \<times> BTCFlushPredictor \<times> heap" where
  "first_call = predict model current_state 13 model_heap"

definition second_call :: "(error + prediction) \<times> BTCFlushPredictor \<times> heap" where
  "second_call = predict (fst (snd first_call)) liquidation_state 13 (snd (snd first_call))"

section \<open>The methods in closed form\<close>

lemma setitem_same [simp]: "setitem hp d k v d k = Some v"
  by (simp add: setitem_def)

lemma setitem_other_key [simp]: "k' \<noteq> k \<Longrightarrow> setitem hp d k v d k' = hp d k'"
  by (simp add: setitem_def)

lemma setitem_other_dict [simp]: "d' \<noteq> d \<Longrightarrow> setitem hp d k v d' = hp d'"
  by (simp add: setitem_def)

lemma setitem_idem [simp]: "setitem (setitem hp d k v) d k v = setitem hp d k v"
  by (simp add: setitem_def)

lemma with_scores_at:
  "with_scores state d hp d =
     (hp d)(''funding_pressure'' \<mapsto> funding_pressure state,
            ''structure_score'' \<mapsto> structure_score state)"
  by (simp add: with_scores_def setitem_def)

lemma with_scores_other_dict: "d' \<noteq> d \<Longrightarrow> with_scores state d hp d' = hp d'"
  by (simp add: with_scores_def)

lemma with_scores_idem [simp]:
  "with_scores state d (with_scores state d hp) = with_scores state d hp"
proof
  fix d'
  show "with_scores state d (with_scores state d hp) d' = with_scores state d hp d'"
    by (cases "d' = d") (simp_all add: with_scores_at with_scores_other_dict)
qed

lemma calculate_funding_pressure_eq:
  "calculate_funding_pressure self state hp =
     (if resistance_level state = 0 then (Inl ZeroDivisionError, hp)
      else (Inr (funding_pressure state),
            setitem hp (self_features self) ''funding_pressure'' (funding_pressure state)))"
  by (simp add: calculate_funding_pressure_def funding_pressure_def funding_z_def
      time_pressure_def price_vs_resistance_def funding_penalty_def Let_def)

lemma structural_breakdown_score_eq:
  "structural_breakdown_score self state hp =
     (if \<not> price state < support_level state \<and> support_level state = 0
      then (Inl ZeroDivisionError, hp)
      else (Inr (structure_score state),
            setitem hp (self_features self) ''structure_score'' (structure_score state)))"
  by (simp add: structural_breakdown_score_def structure_score_def breakdown_severity_def
      volume_score_def rsi_score_def Let_def)

lemma time_regime_classifier_self:
  "time_regime_classifier self state h = time_regime_classifier self' state h"
  by (simp add: time_regime_classifier_def)

lemma predict_resistance_zero:
  assumes "resistance_level state = 0"
  shows "predict self state h hp = (Inl ZeroDivisionError, self, hp)"
  using assms by (simp add: predict_def calculate_funding_pressure_eq)

lemma predict_support_zero:
  assumes "resistance_level state \<noteq> 0" and "support_level state = 0" and "0 \<le> price state"
  shows "predict self state h hp =
    (Inl ZeroDivisionError, self,
     setitem hp (self_features self) ''funding_pressure'' (funding_pressure state))"
  using assms
  by (simp add: predict_def calculate_funding_pressure_eq structural_breakdown_score_eq)

lemma predict_ok:
  assumes "resistance_level state \<noteq> 0"
    and "price state < support_level state \<or> support_level state \<noteq> 0"
  obtains fp target where
    "(fp, target) =
       flush_model (time_regime_classifier self state h) (funding_pressure state)
         (structure_score state) state"
    and "predict self state h hp =
      (Inr (result_of fp target (time_regime_classifier self state h) (self_features self)),
       self\<lparr>self_flush_probability := fp\<rparr>,
       with_scores state (self_features self) hp)"
proof -
  define rgm where "rgm = time_regime_classifier self state h"
  define D where "D = flush_model rgm (funding_pressure state) (structure_score state) state"
  have g: "\<not> (\<not> price state < support_level state \<and> support_level state = 0)"
    using assms(2) by auto
  have c: "calculate_funding_pressure self state hp =
        (Inr (funding_pressure state),
         setitem hp (self_features self) ''funding_pressure'' (funding_pressure state))"
    using assms(1) by (simp add: calculate_funding_pressure_eq)
  have s: "structural_breakdown_score self state hp' =
        (Inr (structure_score state),
         setitem hp' (self_features self) ''structure_score'' (structure_score state))"
    for hp'
    unfolding structural_breakdown_score_eq by (simp only: g if_False)
  have p: "predict self state h hp =
     (case D of (fp, target) \<Rightarrow>
        (Inr (result_of fp target rgm (self_features self)),
         self\<lparr>self_flush_probability := fp\<rparr>,
         with_scores state (self_features self) hp))"
    unfolding predict_def c s rgm_def [symmetric]
    by (simp add: Let_def D_def flush_model_def result_of_def with_scores_def
        split del: if_split)
  obtain fp target where d: "D = (fp, target)"
    by (cases D)
  show thesis
  proof (rule that [of fp target])
    show "(fp, target) =
       flush_model (time_regime_classifier self state h) (funding_pressure state)
         (structure_score state) state"
      using d [symmetric] unfolding D_def rgm_def .
    show "predict self state h hp =
      (Inr (result_of fp target (time_regime_classifier self state h) (self_features self)),
       self\<lparr>self_flush_probability := fp\<rparr>,
       with_scores state (self_features self) hp)"
      using p unfolding d prod.case rgm_def .
  qed
qed

section \<open>Bounds on the scores\<close>

lemma funding_z_bounds: "0 \<le> funding_z state \<and> funding_z state \<le> 1"
  by (simp add: funding_z_def)

lemma time_pressure_bounds: "0.3 \<le> time_pressure state \<and> time_pressure state \<le> 0.95"
  by (simp add: time_pressure_def max_def min_def)

lemma funding_z_time_pressure_bounds:
  "0 \<le> funding_z state * time_pressure state \<and> funding_z state * time_pressure state \<le> 0.95"
proof -
  have a: "0 \<le> funding_z state" "funding_z state \<le> 1"
    using funding_z_bounds by auto
  have b: "0 \<le> time_pressure state" "time_pressure state \<le> 0.95"
    using time_pressure_bounds [of state] by auto
  have "funding_z state * time_pressure state \<le> 1 * 0.95"
    using a b by (intro mult_mono) auto
  moreover have "0 \<le> funding_z state * time_pressure state"
    using a b by simp
  ultimately show ?thesis by simp
qed

lemma funding_pressure_nonneg: "0 \<le> funding_pressure state"
  using funding_z_time_pressure_bounds [of state]
  by (simp add: funding_pressure_def funding_penalty_def)

lemma breakdown_severity_nonneg: "0 \<le> breakdown_severity state"
  by (simp add: breakdown_severity_def)

lemma breakdown_severity_le:
  assumes "0 < support_level state"
  shows "breakdown_severity state \<le> 1"
proof (cases "price state < support_level state")
  case True
  then show ?thesis by (simp add: breakdown_severity_def)
next
  case False
  define d where "d = (price state - support_level state) / support_level state"
  have "0 \<le> d"
    using assms False by (simp add: d_def)
  then have "max 0 (1 - d * 10) \<le> 1"
    by simp
  moreover have "breakdown_severity state = max 0 (1 - d * 10)"
    using False by (simp only: breakdown_severity_def d_def if_False)
  ultimately show ?thesis by simp
qed

lemma volume_score_le: "volume_score state \<le> 1"
  by (simp add: volume_score_def)

lemma volume_score_nonneg: "0 \<le> volume_24h state \<Longrightarrow> 0 \<le> volume_score state"
  by (simp add: volume_score_def)

lemma rsi_score_nonneg: "0 \<le> rsi_score state"
  by (simp add: rsi_score_def)

lemma rsi_score_le: "0 \<le> rsi_1h state \<Longrightarrow> rsi_score state \<le> 1"
  by (simp add: rsi_score_def)

lemma structure_score_le:
  assumes "0 < support_level state" and "0 \<le> rsi_1h state"
  shows "structure_score state \<le> 1"
  using breakdown_severity_le [OF assms(1)] volume_score_le [of state]
    rsi_score_le [OF assms(2)]
  by (simp add: structure_score_def)

lemma structure_score_nonneg:
  assumes "0 \<le> volume_24h state"
  shows "0 \<le> structure_score state"
  using breakdown_severity_nonneg [of state] volume_score_nonneg [OF assms]
    rsi_score_nonneg [of state]
  by (simp add: structure_score_def)

section \<open>The outcomes of \<^verbatim>\<open>predict\<close>\<close>

lemmas eval_defs = predict_def calculate_funding_pressure_def structural_breakdown_score_def
  time_regime_classifier_def Let_def init_def model_def model_heap_def setitem_def

lemma flush_probability_result_of [simp]: "flush_probability (result_of fp t r fs) = fp"
  and target_price_result_of [simp]: "target_price (result_of fp t r fs) = t"
  and regime_result_of [simp]: "regime (result_of fp t r fs) = r"
  and features_result_of [simp]: "features (result_of fp t r fs) = fs"
  by (simp_all add: result_of_def)

lemma signal_result_of:
  "signal (result_of fp t r fs) =
     (if fp > 0.65 then ''SHORT_FLUSH'' else ''NEUTRAL/CONSOLIDATION'')"
  by (simp add: result_of_def)

lemma confidence_result_of:
  "confidence (result_of fp t r fs) =
     (if fp > 0.7 then ''HIGH'' else if fp > 0.5 then ''MEDIUM'' else ''LOW'')"
  by (simp add: result_of_def)

lemma predict_returns:
  assumes "fst (predict self state h hp) = Inr r"
  shows "resistance_level state \<noteq> 0"
    and "price state < support_level state \<or> support_level state \<noteq> 0"
proof -
  show "resistance_level state \<noteq> 0"
    using assms predict_resistance_zero [of state self h hp] by auto
  then show "price state < support_level state \<or> support_level state \<noteq> 0"
    using assms predict_support_zero [of state self h hp] by auto
qed

lemma fst_predict_ok:
  assumes "resistance_level state \<noteq> 0"
    and "price state < support_level state \<or> support_level state \<noteq> 0"
  obtains fp target where
    "(fp, target) =
       flush_model (time_regime_classifier self state h) (funding_pressure state)
         (structure_score state) state"
    and "fst (predict self state h hp) =
       Inr (result_of fp target (time_regime_classifier self state h) (self_features self))"
  using predict_ok [OF assms, of self h hp] by (metis fst_conv)

lemma predict_cases:
  obtains (resistance) "resistance_level state = 0"
      and "predict self state h hp = (Inl ZeroDivisionError, self, hp)"
  | (support) "resistance_level state \<noteq> 0"
      and "support_level state = 0" and "0 \<le> price state"
      and "predict self state h hp =
        (Inl ZeroDivisionError, self,
         setitem hp (self_features self) ''funding_pressure'' (funding_pressure state))"
  | (ok) fp target where "resistance_level state \<noteq> 0"
      and "price state < support_level state \<or> support_level state \<noteq> 0"
      and "flush_model (time_regime_classifier self state h) (funding_pressure state)
         (structure_score state) state = (fp, target)"
      and "predict self state h hp =
        (Inr (result_of fp target (time_regime_classifier self state h) (self_features self)),
         self\<lparr>self_flush_probability := fp\<rparr>,
         with_scores state (self_features self) hp)"
proof (cases "resistance_level state = 0")
  case True
  show thesis
    by (rule resistance [OF True predict_resistance_zero [OF True]])
next
  case nz: False
  show thesis
  proof (cases "price state < support_level state \<or> support_level state \<noteq> 0")
    case True
    from predict_ok [OF nz True, of self h hp] obtain fp target where
      "(fp, target) =
         flush_model (time_regime_classifier self state h) (funding_pressure state)
           (structure_score state) state"
      and "predict self state h hp =
        (Inr (result_of fp target (time_regime_classifier self state h) (self_features self)),
         self\<lparr>self_flush_probability := fp\<rparr>,
         with_scores state (self_features self) hp)"
      by blast
    then show thesis
      using nz True by (intro ok [of fp target]) simp_all
  next
    case False
    then have z: "support_level state = 0" and p: "0 \<le> price state"
      by auto
    show thesis
      by (rule support [OF nz z p predict_support_zero [OF nz z p]])
  qed
qed

lemma flush_model_rule1:
  assumes "rgm = ''funding_liquidation_window''" and "funding_pain > 0.6"
  shows "flush_model rgm funding_pain structural_damage state =
    (min (funding_pain * structural_damage * 1.2) 0.85, support_level state * 0.995)"
  using assms by (simp add: flush_model_def)

lemma flush_model_target:
  assumes "(fp, target) = flush_model rgm funding_pain structural_damage state"
    and "fp > 0.65"
  shows "target = support_level state * 0.995 \<or> target = support_level state"
  using assms by (auto simp: flush_model_def split: if_splits)

subsection \<open>The object and the store between calls\<close>

lemma predict_self_features:
  "self_features (fst (snd (predict self state h hp))) = self_features self"
  by (cases rule: predict_cases [of state self h hp]) simp_all

lemma fst_predict_independent:
  assumes "self_features self' = self_features self"
  shows "fst (predict self' state h hp') = fst (predict self state h hp)"
proof -
  have t: "time_regime_classifier self' state h = time_regime_classifier self state h"
    by (rule time_regime_classifier_self)
  show ?thesis
  proof (cases rule: predict_cases [of state self h hp])
    case resistance
    then show ?thesis
      by (simp add: predict_resistance_zero)
  next
    case support
    then show ?thesis
      by (simp add: predict_support_zero)
  next
    case (ok fp target)
    then show ?thesis
      by (cases rule: predict_cases [of state self' h hp']) (simp_all add: t assms)
  qed
qed

lemma predict_again:
  "predict (fst (snd (predict self state h hp))) state h (snd (snd (predict self state h hp))) =
     predict self state h hp"
proof (cases rule: predict_cases [of state self h hp])
  case resistance
  then show ?thesis by simp
next
  case support
  then show ?thesis by (simp add: predict_support_zero)
next
  case (ok fp target)
  define self1 where "self1 = self\<lparr>self_flush_probability := fp\<rparr>"
  define hp1 where "hp1 = with_scores state (self_features self) hp"
  have t: "time_regime_classifier self1 state h = time_regime_classifier self state h"
    by (rule time_regime_classifier_self)
  have f: "self_features self1 = self_features self"
    by (simp add: self1_def)
  have "predict self1 state h hp1 = predict self state h hp"
  proof (cases rule: predict_cases [of state self1 h hp1])
    case resistance
    with ok show ?thesis by simp
  next
    case support
    with ok show ?thesis by simp
  next
    case inner: (ok fp' target')
    have e: "fp' = fp" "target' = target"
      using inner(3) ok(3) by (simp_all add: t)
    show ?thesis
      unfolding inner(4) ok(4) t e f by (simp add: self1_def hp1_def)
  qed
  then show ?thesis
    unfolding ok(4) by (simp add: self1_def hp1_def)
qed

section \<open>Range of the flush probability\<close>

text \<open>
  C1, as stated, fails. With \<open>rsi_1h\<close> in [0,100] and both levels positive, but a negative
  \<open>volume_24h\<close>, the structure score is negative (here \<open>-2.5\<close>), rule 1 fires at hour 13
  with funding pressure \<open>1.40625\<close>, and the flush probability is
  \<open>min (1.40625 * -2.5 * 1.2) 0.85 = -4.21875\<close>, below 0.
\<close>

theorem flush_probability_negative_volume:
  "0 \<le> rsi_1h negative_volume_state \<and> rsi_1h negative_volume_state \<le> 100 \<and>
   0 < support_level negative_volume_state \<and> 0 < resistance_level negative_volume_state \<and>
   fst (predict model negative_volume_state 13 model_heap) \<noteq> Inl ZeroDivisionError \<and>
   flush_probability (projr (fst (predict model negative_volume_state 13 model_heap))) =
     - 4.21875"
  by (simp add: eval_defs negative_volume_state_def)

text \<open>
  C1, amended: for every snapshot whose \<open>rsi_1h\<close> lies in [0,100], whose support and
  resistance levels are positive and whose \<open>volume_24h\<close> is not negative, \<^verbatim>\<open>predict\<close>
  returns a result, at any hour, from any object and in any store, and its flush
  probability lies in [0, 0.85].
\<close>

theorem flush_probability_range:
  assumes "0 \<le> rsi_1h state" and "rsi_1h state \<le> 100"
    and "0 < support_level state" and "0 < resistance_level state"
    and "0 \<le> volume_24h state"
  shows "\<exists>r. fst (predict self state h hp) = Inr r \<and>
           0 \<le> flush_probability r \<and> flush_probability r \<le> 0.85"
proof -
  have a: "resistance_level state \<noteq> 0"
    using assms(4) by simp
  have b: "price state < support_level state \<or> support_level state \<noteq> 0"
    using assms(3) by simp
  obtain fp target where d: "(fp, target) =
       flush_model (time_regime_classifier self state h) (funding_pressure state)
         (structure_score state) state"
    and p: "fst (predict self state h hp) =
       Inr (result_of fp target (time_regime_classifier self state h) (self_features self))"
    using fst_predict_ok [OF a b] by blast
  have f: "0 \<le> funding_pressure state"
    by (rule funding_pressure_nonneg)
  have s0: "0 \<le> structure_score state"
    using assms(5) by (rule structure_score_nonneg)
  have s1: "structure_score state \<le> 1"
    using assms(3,1) by (rule structure_score_le)
  have m: "0 \<le> funding_pressure state * structure_score state * 1.2"
    using f s0 by simp
  have "0 \<le> fp \<and> fp \<le> 0.85"
    using d s0 s1 m by (auto simp: flush_model_def split: if_splits)
  then show ?thesis
    by (simp add: p)
qed

text \<open>The amended C1 at the entry point's snapshot, hour 13.\<close>

theorem flush_probability_range_witness:
  "0 \<le> rsi_1h current_state \<and> rsi_1h current_state \<le> 100 \<and>
   0 < support_level current_state \<and> 0 < resistance_level current_state \<and>
   0 \<le> volume_24h current_state \<and>
   (\<exists>r. fst (predict model current_state 13 model_heap) = Inr r \<and>
        0 \<le> flush_probability r \<and> flush_probability r \<le> 0.85)"
  using flush_probability_range [of current_state model 13 model_heap]
  by (simp add: current_state_def)

section \<open>The reference scenario\<close>

text \<open>
  C2, as stated, fails in its last field. At hour 13 the entry point's snapshot takes rule
  3, so the flush probability is 0.5; \<^verbatim>\<open>predict\<close> tests \<^verbatim>\<open>> 0.7\<close> and then
  \<^verbatim>\<open>> 0.5\<close>, both strict, so the confidence is \<^verbatim>\<open>'LOW'\<close>, not \<^verbatim>\<open>'MEDIUM'\<close>.
\<close>

theorem confidence_at_one_half:
  "fst (predict model current_state 13 model_heap) \<noteq> Inl ZeroDivisionError \<and>
   flush_probability (projr (fst (predict model current_state 13 model_heap))) = 0.5 \<and>
   confidence (projr (fst (predict model current_state 13 model_heap))) = ''LOW'' \<and>
   confidence (projr (fst (predict model current_state 13 model_heap))) \<noteq> ''MEDIUM''"
  by (simp add: eval_defs current_state_def)

text \<open>
  C2, amended: for the reference snapshot at hour 13, \<^verbatim>\<open>predict\<close> returns, from any object
  and in any store, regime \<^verbatim>\<open>consolidation_bleed\<close>, flush probability exactly 0.5, target
  price 81118, the signal \<^verbatim>\<open>'NEUTRAL/CONSOLIDATION'\<close> (the spec's NEUTRAL_CONSOLIDATION)
  and confidence \<^verbatim>\<open>'LOW'\<close>.
\<close>

theorem reference_scenario_prediction:
  "\<exists>r. fst (predict self current_state 13 hp) = Inr r \<and>
     regime r = ''consolidation_bleed'' \<and> flush_probability r = 0.5 \<and>
     target_price r = 81118 \<and> signal r = ''NEUTRAL/CONSOLIDATION'' \<and>
     confidence r = ''LOW''"
  by (simp add: predict_def calculate_funding_pressure_def structural_breakdown_score_def
      time_regime_classifier_def Let_def current_state_def)

section \<open>Zero levels\<close>

text \<open>
  C3, as stated, fails: the module has no validation step. With a zero support level, a
  non-zero resistance level and the entry point's price, \<^verbatim>\<open>predict\<close> raises
  \<^verbatim>\<open>ZeroDivisionError\<close> in \<^verbatim>\<open>structural_breakdown_score\<close>, after
  \<^verbatim>\<open>calculate_funding_pressure\<close> has computed the funding pressure \<open>0.4734375\<close> and
  stored it in the object's dictionary, which was empty before the call.
\<close>

theorem zero_support_after_scoring:
  "support_level zero_support_state = 0 \<and>
   fst (predict model zero_support_state 13 model_heap) = Inl ZeroDivisionError \<and>
   model_heap (self_features model) ''funding_pressure'' = None \<and>
   snd (snd (predict model zero_support_state 13 model_heap)) (self_features model)
     ''funding_pressure'' = Some 0.4734375 \<and>
   snd (snd (predict model zero_support_state 13 model_heap)) \<noteq> model_heap"
proof -
  have a: "model_heap (self_features model) ''funding_pressure'' = None"
    by (simp add: model_def model_heap_def init_def)
  have b: "snd (snd (predict model zero_support_state 13 model_heap)) (self_features model)
     ''funding_pressure'' = Some 0.4734375"
    by (simp add: eval_defs zero_support_state_def current_state_def)
  have c: "snd (snd (predict model zero_support_state 13 model_heap)) \<noteq> model_heap"
    using a b by auto
  have d: "support_level zero_support_state = 0 \<and>
    fst (predict model zero_support_state 13 model_heap) = Inl ZeroDivisionError"
    by (simp add: eval_defs zero_support_state_def current_state_def)
  show ?thesis
    using a b c d by blast
qed

text \<open>
  C3, amended: with a zero resistance level \<^verbatim>\<open>predict\<close> raises \<^verbatim>\<open>ZeroDivisionError\<close>
  before any score is stored, the object and the store unchanged. With a non-zero
  resistance level, a zero support level and a price that is not negative, it raises
  \<^verbatim>\<open>ZeroDivisionError\<close> after the funding pressure has been computed and stored in the
  object's dictionary. In every other case, a zero support level under a negative price
  included, it returns a result; a result is never returned together with an exception.
\<close>

theorem zero_level_outcomes:
  "(resistance_level state = 0 \<longrightarrow>
      predict self state h hp = (Inl ZeroDivisionError, self, hp)) \<and>
   (resistance_level state \<noteq> 0 \<and> support_level state = 0 \<and> 0 \<le> price state \<longrightarrow>
      predict self state h hp =
        (Inl ZeroDivisionError, self,
         setitem hp (self_features self) ''funding_pressure'' (funding_pressure state))) \<and>
   (resistance_level state \<noteq> 0 \<and>
      (price state < support_level state \<or> support_level state \<noteq> 0) \<longrightarrow>
      (\<exists>r. fst (predict self state h hp) = Inr r))"
proof (intro conjI impI)
  assume "resistance_level state = 0"
  then show "predict self state h hp = (Inl ZeroDivisionError, self, hp)"
    by (rule predict_resistance_zero)
next
  assume "resistance_level state \<noteq> 0 \<and> support_level state = 0 \<and> 0 \<le> price state"
  then show "predict self state h hp =
        (Inl ZeroDivisionError, self,
         setitem hp (self_features self) ''funding_pressure'' (funding_pressure state))"
    by (simp add: predict_support_zero)
next
  assume a: "resistance_level state \<noteq> 0 \<and>
      (price state < support_level state \<or> support_level state \<noteq> 0)"
  then have "resistance_level state \<noteq> 0"
    and "price state < support_level state \<or> support_level state \<noteq> 0"
    by simp_all
  then show "\<exists>r. fst (predict self state h hp) = Inr r"
    by (rule fst_predict_ok [of state self h hp]) blast
qed

text \<open>
  The amended C3 at three snapshots: a zero resistance level, a zero support level, and a
  zero support level under a negative price.
\<close>

theorem zero_level_outcomes_witness:
  "resistance_level zero_resistance_state = 0 \<and>
   predict model zero_resistance_state 13 model_heap =
     (Inl ZeroDivisionError, model, model_heap) \<and>
   resistance_level zero_support_state \<noteq> 0 \<and> support_level zero_support_state = 0 \<and>
   0 \<le> price zero_support_state \<and>
   predict model zero_support_state 13 model_heap =
     (Inl ZeroDivisionError, model,
      setitem model_heap (self_features model) ''funding_pressure'' 0.4734375) \<and>
   resistance_level negative_price_state \<noteq> 0 \<and>
   price negative_price_state < support_level negative_price_state \<and>
   (\<exists>r. fst (predict model negative_price_state 13 model_heap) = Inr r)"
proof -
  have a: "resistance_level zero_resistance_state = 0"
    by (simp add: zero_resistance_state_def)
  have b: "resistance_level zero_support_state \<noteq> 0 \<and> support_level zero_support_state = 0 \<and>
    0 \<le> price zero_support_state"
    by (simp add: zero_support_state_def current_state_def)
  have c: "resistance_level negative_price_state \<noteq> 0 \<and>
    price negative_price_state < support_level negative_price_state"
    by (simp add: negative_price_state_def current_state_def)
  have f: "funding_pressure zero_support_state = 0.4734375"
    by (simp add: funding_pressure_def funding_z_def time_pressure_def funding_penalty_def
        price_vs_resistance_def zero_support_state_def current_state_def)
  show ?thesis
    using zero_level_outcomes [of zero_resistance_state model 13 model_heap]
      zero_level_outcomes [of zero_support_state model 13 model_heap]
      zero_level_outcomes [of negative_price_state model 13 model_heap] a b c
    by (simp add: f)
qed

section \<open>Determinism and the shared dictionary\<close>

text \<open>
  C4, as stated, fails: \<^verbatim>\<open>predict\<close> is not free of hidden mutable state. The
  \<^verbatim>\<open>'features'\<close> entry of a result is the object's own dictionary \<^verbatim>\<open>self.features\<close>,
  which persists between calls and which every call rewrites. After the entry point's call
  the first result shows funding pressure \<open>0.4734375\<close>; after a second call on the same
  object with another snapshot, the same first result shows \<open>1.40625\<close>.
\<close>

theorem earlier_result_rewritten:
  "fst first_call \<noteq> Inl ZeroDivisionError \<and> fst second_call \<noteq> Inl ZeroDivisionError \<and>
   snd (snd first_call) (features (projr (fst first_call))) ''funding_pressure'' =
     Some 0.4734375 \<and>
   snd (snd second_call) (features (projr (fst first_call))) ''funding_pressure'' =
     Some 1.40625"
proof -
  have a: "first_call =
    (Inr (result_of 0.5 81118 ''consolidation_bleed'' 0),
     model\<lparr>self_flush_probability := 0.5\<rparr>,
     setitem (setitem model_heap 0 ''funding_pressure'' 0.4734375)
       0 ''structure_score'' (135091917 / 202795000))"
    by (simp add: first_call_def eval_defs current_state_def result_of_def)
  have b: "fst second_call \<noteq> Inl ZeroDivisionError \<and>
    snd (snd second_call) 0 ''funding_pressure'' = Some 1.40625"
    unfolding second_call_def a
    by (simp add: eval_defs liquidation_state_def)
  show ?thesis
    using b by (simp add: a)
qed

text \<open>
  C4, amended: \<^verbatim>\<open>predict\<close> is deterministic. A second call on the same object with the
  same snapshot and the same hour gives the same outcome, result or exception, and leaves
  the object and the store as the first call left them; the outcome of a call is the same
  whatever call was made on the object before; and the regime is a function of the hour
  and \<open>funding_countdown_hours\<close> alone. The object is not free of mutable state: no call
  changes the reference \<^verbatim>\<open>self.features\<close>, the \<^verbatim>\<open>'features'\<close> entry of every result is
  that reference, and every call that returns overwrites the two scores in the dictionary
  it refers to, so that a result obtained earlier shows the scores of the latest call.
\<close>

theorem predict_repeatable:
  "predict (fst (snd (predict self state h hp))) state h (snd (snd (predict self state h hp))) =
     predict self state h hp \<and>
   fst (predict (fst (snd (predict self state' h' hp))) state h
         (snd (snd (predict self state' h' hp)))) =
     fst (predict self state h hp) \<and>
   time_regime_classifier self state h =
     time_regime_classifier self'
       (state'\<lparr>funding_countdown_hours := funding_countdown_hours state\<rparr>) h \<and>
   self_features (fst (snd (predict self state h hp))) = self_features self \<and>
   (fst (predict self state h hp) = Inr r \<longrightarrow>
      features r = self_features self \<and>
      snd (snd (predict self state h hp)) (self_features self) =
        (hp (self_features self))(''funding_pressure'' \<mapsto> funding_pressure state,
                                  ''structure_score'' \<mapsto> structure_score state))"
proof (intro conjI impI)
  show "predict (fst (snd (predict self state h hp))) state h
      (snd (snd (predict self state h hp))) = predict self state h hp"
    by (rule predict_again)
  show "fst (predict (fst (snd (predict self state' h' hp))) state h
         (snd (snd (predict self state' h' hp)))) = fst (predict self state h hp)"
    by (rule fst_predict_independent) (rule predict_self_features)
  show "time_regime_classifier self state h =
     time_regime_classifier self'
       (state'\<lparr>funding_countdown_hours := funding_countdown_hours state\<rparr>) h"
    by (simp add: time_regime_classifier_def)
  show "self_features (fst (snd (predict self state h hp))) = self_features self"
    by (rule predict_self_features)
next
  assume r: "fst (predict self state h hp) = Inr r"
  then show "features r = self_features self"
    by (cases rule: predict_cases [of state self h hp]) auto
  from r show "snd (snd (predict self state h hp)) (self_features self) =
        (hp (self_features self))(''funding_pressure'' \<mapsto> funding_pressure state,
                                  ''structure_score'' \<mapsto> structure_score state)"
    by (cases rule: predict_cases [of state self h hp]) (simp_all add: with_scores_at)
qed

text \<open>
  The amended C4 at the entry point's call: its result refers to the dictionary of
  \<open>model\<close>, which holds the two scores of the entry point's snapshot after the call.
\<close>

theorem predict_repeatable_witness:
  "fst (predict model current_state 13 model_heap) =
     Inr (result_of 0.5 81118 ''consolidation_bleed'' 0) \<and>
   features (result_of 0.5 81118 ''consolidation_bleed'' 0) = self_features model \<and>
   snd (snd (predict model current_state 13 model_heap)) (self_features model) =
     [''funding_pressure'' \<mapsto> 0.4734375, ''structure_score'' \<mapsto> 135091917 / 202795000]"
proof -
  have a: "fst (predict model current_state 13 model_heap) =
     Inr (result_of 0.5 81118 ''consolidation_bleed'' 0)"
    by (simp add: eval_defs current_state_def result_of_def)
  have f: "funding_pressure current_state = 0.4734375"
    by (simp add: funding_pressure_def funding_z_def time_pressure_def funding_penalty_def
        price_vs_resistance_def current_state_def)
  have s: "structure_score current_state = 135091917 / 202795000"
    by (simp add: structure_score_def breakdown_severity_def volume_score_def rsi_score_def
        current_state_def)
  have m: "model_heap (self_features model) = Map.empty"
    by (simp add: model_def model_heap_def init_def)
  have "features (result_of 0.5 81118 ''consolidation_bleed'' 0) = self_features model \<and>
      snd (snd (predict model current_state 13 model_heap)) (self_features model) =
        (model_heap (self_features model))
          (''funding_pressure'' \<mapsto> funding_pressure current_state,
           ''structure_score'' \<mapsto> structure_score current_state)"
    using predict_repeatable [where self = model and state = current_state and h = 13
        and hp = model_heap and r = "result_of 0.5 81118 ''consolidation_bleed'' 0"
        and self' = model and state' = current_state and h' = 13] a
    by blast
  then show ?thesis
    using a by (auto simp: f s m)
qed

section \<open>Precedence of the rules\<close>

text \<open>
  C5: when the scorers return \<open>funding_pain\<close> and \<open>structural_damage\<close>, the regime is
  \<^verbatim>\<open>funding_liquidation_window\<close> with \<open>funding_pain > 0.6\<close> (rule 1), and also
  \<open>structural_damage > 0.7\<close> with a positive funding rate (rule 2), \<^verbatim>\<open>predict\<close> returns
  rule 1's outcome: flush probability \<open>min (funding_pain * structural_damage * 1.2) 0.85\<close>
  and target \<open>support_level * 0.995\<close>.
\<close>

theorem first_rule_wins:
  assumes "fst (calculate_funding_pressure self state hp) = Inr funding_pain"
    and "fst (structural_breakdown_score self state hp) = Inr structural_damage"
    and "time_regime_classifier self state h = ''funding_liquidation_window''"
    and "funding_pain > 0.6"
    and "structural_damage > 0.7" and "funding_rate state > 0"
  shows "\<exists>r. fst (predict self state h hp) = Inr r \<and>
     flush_probability r = min (funding_pain * structural_damage * 1.2) 0.85 \<and>
     target_price r = support_level state * 0.995"
proof -
  have a: "resistance_level state \<noteq> 0" and fp: "funding_pain = funding_pressure state"
    using assms(1) by (auto simp: calculate_funding_pressure_eq split: if_splits)
  have b: "price state < support_level state \<or> support_level state \<noteq> 0"
    and sd: "structural_damage = structure_score state"
    using assms(2) by (auto simp: structural_breakdown_score_eq split: if_splits)
  obtain fp target where d: "(fp, target) =
       flush_model (time_regime_classifier self state h) (funding_pressure state)
         (structure_score state) state"
    and p: "fst (predict self state h hp) =
       Inr (result_of fp target (time_regime_classifier self state h) (self_features self))"
    using fst_predict_ok [OF a b] by blast
  have "(fp, target) =
     (min (funding_pain * structural_damage * 1.2) 0.85, support_level state * 0.995)"
    using d assms(3,4) unfolding fp sd by (simp only: flush_model_rule1)
  then show ?thesis
    by (simp add: p)
qed

text \<open>
  C5 at a snapshot that satisfies both rules at hour 13: funding pressure \<open>1.40625\<close>,
  structure score \<open>0.88\<close>, so the probability is capped at 0.85 (rule 2 would give 0.704)
  and the target is \<open>81118 * 0.995\<close>.
\<close>

theorem first_rule_wins_witness:
  "fst (calculate_funding_pressure model liquidation_state model_heap) = Inr 1.40625 \<and>
   fst (structural_breakdown_score model liquidation_state model_heap) = Inr 0.88 \<and>
   time_regime_classifier model liquidation_state 13 = ''funding_liquidation_window'' \<and>
   (1.40625::real) > 0.6 \<and> (0.88::real) > 0.7 \<and> funding_rate liquidation_state > 0 \<and>
   (\<exists>r. fst (predict model liquidation_state 13 model_heap) = Inr r \<and>
     flush_probability r = 0.85 \<and> target_price r = 80712.41)"
proof -
  have a: "fst (calculate_funding_pressure model liquidation_state model_heap) = Inr 1.40625"
    by (simp add: calculate_funding_pressure_def Let_def liquidation_state_def)
  have b: "fst (structural_breakdown_score model liquidation_state model_heap) = Inr 0.88"
    by (simp add: structural_breakdown_score_def Let_def liquidation_state_def)
  have c: "time_regime_classifier model liquidation_state 13 = ''funding_liquidation_window''"
    by (simp add: time_regime_classifier_def liquidation_state_def)
  have d: "funding_rate liquidation_state > 0" "support_level liquidation_state = 81118"
    by (simp_all add: liquidation_state_def)
  show ?thesis
    using first_rule_wins [OF a b c _ _ d(1)] a b c d by simp
qed

section \<open>Range of the funding pressure\<close>

text \<open>
  C6: whenever the resistance level is not zero, \<^verbatim>\<open>calculate_funding_pressure\<close> returns
  a score that is not negative and at most 1.425; it is not clamped to [0,1], and it
  exceeds 1 exactly when the 1.5 penalty applies (positive funding rate and
  \<open>price_vs_resistance > 0.01\<close>) and \<open>funding_z * time_pressure\<close> exceeds 2/3.
\<close>

theorem funding_pressure_range:
  assumes "resistance_level state \<noteq> 0"
  shows "\<exists>v. fst (calculate_funding_pressure self state hp) = Inr v \<and>
     0 \<le> v \<and> v \<le> 1.425 \<and>
     (1 < v \<longleftrightarrow> funding_rate state > 0 \<and> price_vs_resistance state > 0.01 \<and>
         funding_z state * time_pressure state > 2 / 3)"
  using assms funding_z_time_pressure_bounds [of state]
  by (auto simp: calculate_funding_pressure_eq funding_pressure_def funding_penalty_def)

text \<open>
  C6 at a snapshot with funding rate 0.0008, half an hour to funding and the price more
  than 1% under the resistance: the score is above 1.
\<close>

theorem funding_pressure_range_witness:
  "resistance_level liquidation_state \<noteq> 0 \<and>
   (\<exists>v. fst (calculate_funding_pressure model liquidation_state model_heap) = Inr v \<and>
      0 \<le> v \<and> v \<le> 1.425 \<and> 1 < v)"
proof -
  have a: "resistance_level liquidation_state \<noteq> 0"
    by (simp add: liquidation_state_def)
  have "funding_rate liquidation_state > 0 \<and> price_vs_resistance liquidation_state > 0.01 \<and>
         funding_z liquidation_state * time_pressure liquidation_state > 2 / 3"
    by (simp add: liquidation_state_def price_vs_resistance_def funding_z_def time_pressure_def)
  then show ?thesis
    using funding_pressure_range [OF a, of model model_heap] a by auto
qed

section \<open>The structure score below the support\<close>

text \<open>
  C7: for every snapshot with the price below the support level,
  \<^verbatim>\<open>structural_breakdown_score\<close> returns \<open>0.5 + volume_score * 0.3 + rsi_score * 0.2\<close>
  with \<open>volume_score = min (volume_24h / 5e9) 1\<close> and \<open>rsi_score = (50 - rsi_1h) / 50\<close>
  below 50, else 0; for price 80000, support 81118, volume 5e9 and RSI 30 it returns 0.88.
\<close>

theorem breakdown_score_below_support:
  "(price state < support_level state \<longrightarrow>
      fst (structural_breakdown_score self state hp) =
        Inr (0.5 + min (volume_24h state / 5000000000) 1.0 * 0.3 +
             (if rsi_1h state < 50 then (50 - rsi_1h state) / 50 else 0) * 0.2)) \<and>
   fst (structural_breakdown_score self
         (state\<lparr>price := 80000, support_level := 81118, volume_24h := 5000000000,
                 rsi_1h := 30\<rparr>) hp) = Inr 0.88"
  by (simp add: structural_breakdown_score_def Let_def)

text \<open>C7 at a snapshot with the price below the support.\<close>

theorem breakdown_score_below_support_witness:
  "price liquidation_state < support_level liquidation_state \<and>
   fst (structural_breakdown_score model liquidation_state model_heap) = Inr 0.88"
  using breakdown_score_below_support [of liquidation_state model model_heap]
  by (simp add: liquidation_state_def)

section \<open>The regime table\<close>

text \<open>
  C8: for an hour in [0,23], \<^verbatim>\<open>time_regime_classifier\<close> returns
  \<^verbatim>\<open>funding_liquidation_window\<close> in [8,16) with less than an hour to funding,
  \<^verbatim>\<open>consolidation_bleed\<close> in [8,16) otherwise, \<^verbatim>\<open>asia_deleveraging\<close> in [0,8),
  \<^verbatim>\<open>us_momentum\<close> in [19,21] and \<^verbatim>\<open>standard\<close> otherwise; in particular at (13, 0.5),
  (13, 3), hour 5, hour 20 and hour 23.
\<close>

theorem regime_table:
  "(0 \<le> h \<and> h \<le> 23 \<longrightarrow>
     time_regime_classifier self state h =
      (if 8 \<le> h \<and> h < 16 then
         (if funding_countdown_hours state < 1 then ''funding_liquidation_window''
          else ''consolidation_bleed'')
       else if h < 8 then ''asia_deleveraging''
       else if 19 \<le> h \<and> h \<le> 21 then ''us_momentum''
       else ''standard'')) \<and>
   time_regime_classifier self (state\<lparr>funding_countdown_hours := 0.5\<rparr>) 13 =
     ''funding_liquidation_window'' \<and>
   time_regime_classifier self (state\<lparr>funding_countdown_hours := 3\<rparr>) 13 =
     ''consolidation_bleed'' \<and>
   time_regime_classifier self state 5 = ''asia_deleveraging'' \<and>
   time_regime_classifier self state 20 = ''us_momentum'' \<and>
   time_regime_classifier self state 23 = ''standard''"
  by (simp add: time_regime_classifier_def)

text \<open>C8 at hour 13 with half an hour to funding.\<close>

theorem regime_table_witness:
  "(0::int) \<le> 13 \<and> (13::int) \<le> 23 \<and>
   time_regime_classifier model (current_state\<lparr>funding_countdown_hours := 0.5\<rparr>) 13 =
     ''funding_liquidation_window''"
  using regime_table [of 13 model "current_state\<lparr>funding_countdown_hours := 0.5\<rparr>"]
  by simp

section \<open>Signal and confidence\<close>

text \<open>
  C9: for every object, store, snapshot and hour, if the result of \<^verbatim>\<open>predict\<close> has
  confidence \<^verbatim>\<open>'HIGH'\<close> then its signal is \<^verbatim>\<open>'SHORT_FLUSH'\<close>.
\<close>

theorem high_confidence_short_flush:
  assumes "fst (predict self state h hp) = Inr r" and "confidence r = ''HIGH''"
  shows "signal r = ''SHORT_FLUSH''"
proof -
  obtain fp target fs where r: "r = result_of fp target (time_regime_classifier self state h) fs"
    using fst_predict_ok [OF predict_returns [OF assms(1)], of self h hp] assms(1)
    by (metis sum.inject(2))
  have "fp > 0.7"
    using assms(2) unfolding r confidence_result_of by (simp split: if_splits)
  then show ?thesis
    unfolding r signal_result_of by simp
qed

text \<open>C9 at a result with flush probability 0.85, from rule 1 at hour 13.\<close>

theorem high_confidence_short_flush_witness:
  "fst (predict model liquidation_state 13 model_heap) =
     Inr (result_of 0.85 80712.41 ''funding_liquidation_window'' 0) \<and>
   confidence (result_of 0.85 80712.41 ''funding_liquidation_window'' 0) = ''HIGH'' \<and>
   signal (result_of 0.85 80712.41 ''funding_liquidation_window'' 0) = ''SHORT_FLUSH''"
proof -
  have a: "fst (predict model liquidation_state 13 model_heap) =
     Inr (result_of 0.85 80712.41 ''funding_liquidation_window'' 0)"
    by (simp add: eval_defs liquidation_state_def result_of_def)
  have b: "confidence (result_of 0.85 80712.41 ''funding_liquidation_window'' 0) = ''HIGH''"
    by (simp add: result_of_def)
  show ?thesis
    using high_confidence_short_flush [OF a b] a b by simp
qed

text \<open>
  C10: for every object, store, snapshot and hour, if the result of \<^verbatim>\<open>predict\<close> has
  signal \<^verbatim>\<open>'SHORT_FLUSH'\<close> then its target price is \<open>support_level * 0.995\<close> or
  \<open>support_level\<close>, the targets of rules 1 and 2: the flush probability is above 0.65,
  which neither rule 3 (0.5) nor the default rule (0.2, target \<open>resistance_level\<close>) gives.
\<close>

theorem short_flush_target:
  assumes "fst (predict self state h hp) = Inr r" and "signal r = ''SHORT_FLUSH''"
  shows "(target_price r = support_level state * 0.995 \<or> target_price r = support_level state)
     \<and> flush_probability r > 0.65"
proof -
  obtain fp target fs where d: "(fp, target) =
       flush_model (time_regime_classifier self state h) (funding_pressure state)
         (structure_score state) state"
    and r: "r = result_of fp target (time_regime_classifier self state h) fs"
    using fst_predict_ok [OF predict_returns [OF assms(1)], of self h hp] assms(1)
    by (metis sum.inject(2))
  have "fp > 0.65"
    using assms(2) unfolding r signal_result_of by (simp split: if_splits)
  then show ?thesis
    using flush_model_target [OF d] by (simp add: r)
qed

text \<open>C10 at a result of rule 2, at hour 20: probability \<open>0.88 * 0.8\<close>, target the support.\<close>

theorem short_flush_target_witness:
  "fst (predict model liquidation_state 20 model_heap) =
     Inr (result_of 0.704 81118 ''us_momentum'' 0) \<and>
   signal (result_of 0.704 81118 ''us_momentum'' 0) = ''SHORT_FLUSH'' \<and>
   target_price (result_of 0.704 81118 ''us_momentum'' 0) = support_level liquidation_state"
proof -
  have a: "fst (predict model liquidation_state 20 model_heap) =
     Inr (result_of 0.704 81118 ''us_momentum'' 0)"
    by (simp add: eval_defs liquidation_state_def result_of_def)
  have b: "signal (result_of 0.704 81118 ''us_momentum'' 0) = ''SHORT_FLUSH''"
    by (simp add: result_of_def)
  show ?thesis
    using short_flush_target [OF a b] a b by (simp add: liquidation_state_def)
qed

end
